theory Spec2Isabelle
  imports Main "HOL-Library.AList"
begin

section \<open>JavaScript values, objects and errors\<close>

text \<open>
  A document is a flat JavaScript object. Its property values are strings, numbers,
  booleans or a CAS token of the store; a property that is absent reads as
  \<open>undefined\<close>, which is \<open>None\<close> here. \<open>Object.assign(a, b)\<close> on two such
  objects is map addition \<open>a ++ b\<close>: the keys of \<open>b\<close> win.
\<close>

type_synonym version = nat

datatype jsval = Str string | Num int | Bool bool | Cas version

type_synonym obj = "string \<rightharpoonup> jsval"

text \<open>
  An error thrown by the database module: an error code and the \<open>message\<close> property
  that the DAO reads when it logs.
\<close>

datatype couchbase_code = KeyNotFound | KeyExists | CasMismatch | Failure

datatype js_error = JsError (code: couchbase_code) (message: string)

text \<open>One call of \<open>logger.error(prefix, message)\<close>.\<close>

datatype log_entry = LogError string string

section \<open>The imported modules\<close>

text \<open>
  \<open>dao.js\<close> imports \<open>node-uuid\<close> and \<open>../../../config/couchbase\<close> (the object \<open>db\<close>).
  Neither is part of the file, so the DAO functions take them as a record of functions
  over the state \<open>'st\<close> of the world outside the DAO. Every \<open>db\<close> call either resolves
  (\<open>Inr\<close>) or rejects with an error (\<open>Inl\<close>), and returns the new outside state.
  \<open>db.handleError\<close> translates an error into the type \<open>'x\<close> that callers see.
\<close>

record get_data =
  data_cas :: version
  data_value :: obj

text \<open>
  The statement built in \<open>find\<close>:
  \<^verbatim>\<open>SELECT meta().cas, meta().id, `B`.* FROM `B` WHERE type = 'T'\<close>
  with the bucket name \<open>B\<close> and the type literal \<open>T\<close> interpolated.
\<close>

datatype n1ql = SelectMetaStarWhereType string string

record row =
  row_id :: string
  row_version :: version
  row_fields :: obj

record ('st, 'x) deps =
  uuid_v1 :: "'st \<Rightarrow> string \<times> 'st"
  db_bucketName :: string
  db_durabilityOptions :: obj
  db_get :: "string \<Rightarrow> 'st \<Rightarrow> (js_error + get_data) \<times> 'st"
  db_query :: "n1ql \<Rightarrow> 'st \<Rightarrow> (js_error + row list) \<times> 'st"
  db_insert :: "string \<Rightarrow> obj \<Rightarrow> obj \<Rightarrow> 'st \<Rightarrow> (js_error + obj) \<times> 'st"
  db_replace :: "jsval option \<Rightarrow> obj \<Rightarrow> jsval option \<Rightarrow> 'st \<Rightarrow> (js_error + obj) \<times> 'st"
  db_remove :: "string \<Rightarrow> 'st \<Rightarrow> (js_error + unit) \<times> 'st"
  db_handleError :: "js_error \<Rightarrow> 'x"
  db_removeMetadataFromDoc :: "obj \<Rightarrow> obj"

text \<open>The state the DAO runs in: what the logger has written, and the outside world.\<close>

record 'st world =
  logged :: "log_entry list"
  outside :: 'st

section \<open>The settings DAO (\<open>dao.js\<close>)\<close>

definition DOC_TYPE :: string where
  "DOC_TYPE = ''setting''"

text \<open>
  The \<open>catch\<close> block shared by the five functions: log the operation, the document type
  and the error's message, then throw what \<open>db.handleError\<close> returns.
\<close>

definition log_and_translate ::
  "('st, 'x) deps \<Rightarrow> string \<Rightarrow> js_error \<Rightarrow> 'st \<Rightarrow> 'st world \<Rightarrow> ('x + 'a) \<times> 'st world" where
  "log_and_translate env opname error st' w =
     (Inl (db_handleError env error),
      \<lparr>logged = logged w @ [LogError (''DB '' @ opname @ '' - '' @ DOC_TYPE @ '' -'') (message error)],
       outside = st'\<rparr>)"

definition findByID ::
  "('st, 'x) deps \<Rightarrow> string \<Rightarrow> 'st world \<Rightarrow> ('x + obj) \<times> 'st world" where
  "findByID env docId w =
     (case db_get env docId (outside w) of
        (Inr data, st') \<Rightarrow>
          (Inr ([''id'' \<mapsto> Str docId, ''cas'' \<mapsto> Cas (data_cas data)] ++ data_value data),
           w\<lparr>outside := st'\<rparr>)
      | (Inl error, st') \<Rightarrow> log_and_translate env ''findByID'' error st' w)"

definition find_dao ::
  "('st, 'x) deps \<Rightarrow> 'st world \<Rightarrow> ('x + row list) \<times> 'st world" where
  "find_dao env w =
     (let query = SelectMetaStarWhereType (db_bucketName env) DOC_TYPE
      in case db_query env query (outside w) of
           (Inr rows, st') \<Rightarrow> (Inr rows, w\<lparr>outside := st'\<rparr>)
         | (Inl error, st') \<Rightarrow> log_and_translate env ''find'' error st' w)"

text \<open>
  \<open>insert(doc, id = uuid.v1())\<close>: the default is evaluated only when the caller gives
  no id. The payload handed to \<open>db.insert\<close> is the caller's object with \<open>type\<close> set;
  the result is what \<open>db.insert\<close> resolved with, with \<open>id\<close> set on it.
\<close>

definition insert_dao ::
  "('st, 'x) deps \<Rightarrow> obj \<Rightarrow> string option \<Rightarrow> 'st world \<Rightarrow> ('x + obj) \<times> 'st world" where
  "insert_dao env doc idArg w =
     (let (docId, st0) = (case idArg of None \<Rightarrow> uuid_v1 env (outside w)
                                      | Some i \<Rightarrow> (i, outside w));
          doc1 = doc(''type'' \<mapsto> Str DOC_TYPE)
      in case db_insert env docId doc1 (db_durabilityOptions env) st0 of
           (Inr data, st') \<Rightarrow> (Inr (data(''id'' \<mapsto> Str docId)), w\<lparr>outside := st'\<rparr>)
         | (Inl error, st') \<Rightarrow> log_and_translate env ''insert'' error st' w)"

text \<open>
  \<open>update(doc)\<close>: \<open>id\<close> and \<open>cas\<close> are read from the object first (either may be
  \<open>undefined\<close>), then the object goes through \<open>db.removeMetadataFromDoc\<close>, gets its
  \<open>type\<close> set and is handed to \<open>db.replace\<close> with the option \<open>{cas: cas}\<close>.
\<close>

definition update_dao ::
  "('st, 'x) deps \<Rightarrow> obj \<Rightarrow> 'st world \<Rightarrow> ('x + obj) \<times> 'st world" where
  "update_dao env doc w =
     (let docId = doc ''id'';
          cas = doc ''cas'';
          doc1 = db_removeMetadataFromDoc env doc;
          doc2 = doc1(''type'' \<mapsto> Str DOC_TYPE)
      in case db_replace env docId doc2 cas (outside w) of
           (Inr data, st') \<Rightarrow> (Inr data, w\<lparr>outside := st'\<rparr>)
         | (Inl error, st') \<Rightarrow> log_and_translate env ''update'' error st' w)"

definition remove_dao ::
  "('st, 'x) deps \<Rightarrow> string \<Rightarrow> 'st world \<Rightarrow> ('x + unit) \<times> 'st world" where
  "remove_dao env docId w =
     (case db_remove env docId (outside w) of
        (Inr u, st') \<Rightarrow> (Inr (), w\<lparr>outside := st'\<rparr>)
      | (Inl error, st') \<Rightarrow> log_and_translate env ''remove'' error st' w)"

section \<open>The database module, from the specification\<close>

text \<open>
  The outside world of the DAO: the bucket as an association list from keys to stored
  documents (in insertion order), the last CAS value the bucket has issued, an outage in
  effect (network, timeout, quota: its message), and the identifiers \<open>uuid.v1()\<close>
  returns, as the sequence \<open>uuid_source\<close> and the number of calls made so far.
\<close>

record stored =
  doc_version :: version
  doc_fields :: obj

record external =
  docs :: "(string \<times> stored) list"
  clock :: version
  outage :: "string option"
  uuid_source :: "nat \<Rightarrow> string"
  uuid_calls :: nat

text \<open>
  Modelled from the spec: \<open>uuid.v1()\<close> of the imported module \<open>node-uuid\<close>, which is
  not in the source file. Section 4.1 has the repository generate an identifier when the
  caller gives none; the model returns the next element of \<open>uuid_source\<close>, the sequence
  of identifiers the world supplies, and nothing is assumed of that sequence.
\<close>

definition spec_uuid_v1 :: "external \<Rightarrow> string \<times> external" where
  "spec_uuid_v1 s = (uuid_source s (uuid_calls s), s\<lparr>uuid_calls := Suc (uuid_calls s)\<rparr>)"

text \<open>
  Modelled from the spec: \<open>db.get\<close> of \<open>config/couchbase\<close>, which is not in the source
  file. Section 6: \<open>get(id) \<rightarrow> {value, version}\<close>, fails distinguishably when not found;
  section 7: any other failure of the backend is a failure of its own kind.
\<close>

definition spec_get :: "string \<Rightarrow> external \<Rightarrow> (js_error + get_data) \<times> external" where
  "spec_get k s =
     (case outage s of
        Some m \<Rightarrow> (Inl (JsError Failure m), s)
      | None \<Rightarrow>
          (case map_of (docs s) k of
             None \<Rightarrow> (Inl (JsError KeyNotFound ''key not found''), s)
           | Some d \<Rightarrow> (Inr \<lparr>data_cas = doc_version d, data_value = doc_fields d\<rparr>, s)))"

text \<open>
  Modelled from the spec: \<open>db.query\<close> of \<open>config/couchbase\<close>, which is not in the source
  file. Section 6: \<open>query(typeFilter) \<rightarrow> sequence of {id, version, fields}\<close>; the rows are the
  stored documents whose \<open>type\<close> field is the literal of the statement.
\<close>

definition has_type :: "string \<Rightarrow> string \<times> stored \<Rightarrow> bool" where
  "has_type t kd = (doc_fields (snd kd) ''type'' = Some (Str t))"

definition to_row :: "string \<times> stored \<Rightarrow> row" where
  "to_row kd = \<lparr>row_id = fst kd, row_version = doc_version (snd kd), row_fields = doc_fields (snd kd)\<rparr>"

definition spec_query :: "n1ql \<Rightarrow> external \<Rightarrow> (js_error + row list) \<times> external" where
  "spec_query q s =
     (case outage s of
        Some m \<Rightarrow> (Inl (JsError Failure m), s)
      | None \<Rightarrow>
          (case q of SelectMetaStarWhereType b t \<Rightarrow>
             (Inr (map to_row (filter (has_type t) (docs s))), s)))"

text \<open>
  Modelled from the spec: \<open>db.insert\<close> of \<open>config/couchbase\<close>, which is not in the source
  file. Section 6: \<open>insert(id, payload, durabilityConfig) \<rightarrow> {version}\<close>, fails
  distinguishably on id collision; section 3: the backend assigns the initial version.
  The payload is stored as it is given.
\<close>

definition spec_insert :: "string \<Rightarrow> obj \<Rightarrow> obj \<Rightarrow> external \<Rightarrow> (js_error + obj) \<times> external" where
  "spec_insert k payload durability s =
     (case outage s of
        Some m \<Rightarrow> (Inl (JsError Failure m), s)
      | None \<Rightarrow>
          (case map_of (docs s) k of
             Some d \<Rightarrow> (Inl (JsError KeyExists ''key already exists''), s)
           | None \<Rightarrow>
               (let v = Suc (clock s)
                in (Inr [''cas'' \<mapsto> Cas v],
                    s\<lparr>docs := docs s @ [(k, \<lparr>doc_version = v, doc_fields = payload\<rparr>)], clock := v\<rparr>))))"

text \<open>
  Modelled from the spec: \<open>db.replace\<close> of \<open>config/couchbase\<close>, which is not in the
  source file. Section 6: \<open>replace(id, payload, {expectedVersion}) \<rightarrow> {version}\<close>, fails
  distinguishably on version mismatch or not-found; section 4.1: the write succeeds only
  if the stored version equals the supplied one, and the backend issues a new version.
  A key that is not a string is a failure of the other kind.
\<close>

definition spec_replace ::
  "jsval option \<Rightarrow> obj \<Rightarrow> jsval option \<Rightarrow> external \<Rightarrow> (js_error + obj) \<times> external" where
  "spec_replace key payload expected s =
     (case outage s of
        Some m \<Rightarrow> (Inl (JsError Failure m), s)
      | None \<Rightarrow>
          (case key of
             Some (Str k) \<Rightarrow>
               (case map_of (docs s) k of
                  None \<Rightarrow> (Inl (JsError KeyNotFound ''key not found''), s)
                | Some d \<Rightarrow>
                    if expected = Some (Cas (doc_version d))
                    then (let v = Suc (clock s)
                          in (Inr [''cas'' \<mapsto> Cas v],
                              s\<lparr>docs := AList.update k \<lparr>doc_version = v, doc_fields = payload\<rparr> (docs s),
                                clock := v\<rparr>))
                    else (Inl (JsError CasMismatch ''cas mismatch''), s))
           | _ \<Rightarrow> (Inl (JsError Failure ''invalid key''), s)))"

text \<open>
  Modelled from the spec: \<open>db.remove\<close> of \<open>config/couchbase\<close>, which is not in the source
  file. Section 6: \<open>remove(id) \<rightarrow> void\<close>, fails distinguishably when not found.
\<close>

definition spec_remove :: "string \<Rightarrow> external \<Rightarrow> (js_error + unit) \<times> external" where
  "spec_remove k s =
     (case outage s of
        Some m \<Rightarrow> (Inl (JsError Failure m), s)
      | None \<Rightarrow>
          (case map_of (docs s) k of
             None \<Rightarrow> (Inl (JsError KeyNotFound ''key not found''), s)
           | Some d \<Rightarrow> (Inr (), s\<lparr>docs := AList.delete k (docs s)\<rparr>)))"

text \<open>
  Modelled from the spec: \<open>db.handleError\<close> of \<open>config/couchbase\<close>, which is not in the
  source file. Section 7: the four kinds of failure callers see; \<open>BackendError\<close> carries the
  original cause.
\<close>

datatype repo_error = NotFound | AlreadyExists | VersionConflict | BackendError js_error

definition spec_handleError :: "js_error \<Rightarrow> repo_error" where
  "spec_handleError e =
     (case code e of
        KeyNotFound \<Rightarrow> NotFound
      | KeyExists \<Rightarrow> AlreadyExists
      | CasMismatch \<Rightarrow> VersionConflict
      | Failure \<Rightarrow> BackendError e)"

text \<open>
  Modelled from the spec: \<open>db.removeMetadataFromDoc\<close> of \<open>config/couchbase\<close>, which is not
  in the source file. Section 4.1: strips \<open>version\<close>/\<open>id\<close> from the payload before writing.
\<close>

definition spec_removeMetadataFromDoc :: "obj \<Rightarrow> obj" where
  "spec_removeMetadataFromDoc doc = doc(''id'' := None, ''cas'' := None)"

text \<open>The DAO's imports, with the database module as the specification describes it.\<close>

definition couchbase :: "(external, repo_error) deps" where
  "couchbase =
     \<lparr>uuid_v1 = spec_uuid_v1,
      db_bucketName = ''default'',
      db_durabilityOptions = Map.empty,
      db_get = spec_get,
      db_query = spec_query,
      db_insert = spec_insert,
      db_replace = spec_replace,
      db_remove = spec_remove,
      db_handleError = spec_handleError,
      db_removeMetadataFromDoc = spec_removeMetadataFromDoc\<rparr>"

text \<open>
  Every CAS value in the bucket has been issued by the bucket's clock. It holds of the
  empty bucket, and \<open>spec_insert\<close>, \<open>spec_replace\<close> and \<open>spec_remove\<close> keep it.
\<close>

definition versions_issued :: "external \<Rightarrow> bool" where
  "versions_issued s = list_all (\<lambda>kd. doc_version (snd kd) \<le> clock s) (docs s)"

text \<open>What the bucket holds under a key: the version and the field set.\<close>

definition stored_version :: "external \<Rightarrow> string \<Rightarrow> version option" where
  "stored_version s k = map_option doc_version (map_of (docs s) k)"

definition stored_fields :: "external \<Rightarrow> string \<Rightarrow> obj option" where
  "stored_fields s k = map_option doc_fields (map_of (docs s) k)"

text \<open>
  Worlds for the examples: nothing logged, no outage, and a bucket that is empty or
  holds one setting under the key \<open>k\<close> at version 1.
\<close>

definition example_uuids :: "nat \<Rightarrow> string" where
  "example_uuids n = replicate (Suc n) CHR ''u''"

definition empty_bucket :: external where
  "empty_bucket =
     \<lparr>docs = [], clock = 0, outage = None, uuid_source = example_uuids, uuid_calls = 0\<rparr>"

definition start :: "external world" where
  "start = \<lparr>logged = [], outside = empty_bucket\<rparr>"

definition one_setting :: "external world" where
  "one_setting =
     \<lparr>logged = [],
      outside = empty_bucket
        \<lparr>docs := [(''k'', \<lparr>doc_version = 1,
                          doc_fields = [''language'' \<mapsto> Str ''en'', ''type'' \<mapsto> Str ''setting'']\<rparr>)],
         clock := 1\<rparr>\<rparr>"

text \<open>
  A bucket shared with another repository: two settings and one document of type
  \<open>user\<close>.
\<close>

definition shared_bucket :: "external world" where
  "shared_bucket =
     \<lparr>logged = [],
      outside = empty_bucket
        \<lparr>docs := [(''k'', \<lparr>doc_version = 1,
                          doc_fields = [''language'' \<mapsto> Str ''en'', ''type'' \<mapsto> Str ''setting'']\<rparr>),
                  (''p'', \<lparr>doc_version = 2,
                          doc_fields = [''email'' \<mapsto> Str ''ann@example.org'', ''type'' \<mapsto> Str ''user'']\<rparr>),
                  (''q'', \<lparr>doc_version = 3,
                          doc_fields = [''language'' \<mapsto> Str ''fr'', ''type'' \<mapsto> Str ''setting'']\<rparr>)],
         clock := 3\<rparr>\<rparr>"

section \<open>The local authentication strategy\<close>

text \<open>
  \<open>email.toLowerCase()\<close> is \<open>String.prototype.toLowerCase\<close> of the JavaScript engine. It
  follows the Unicode case tables of the engine that runs the code, which are not part of
  the repository, so the strategy takes the function as a parameter. What is fixed for
  every engine is its value on a string of ASCII characters (codes below 128): the
  letters \<open>A\<close> to \<open>Z\<close> (codes 65 to 90) move to \<open>a\<close> to \<open>z\<close> and every other character
  stays. \<open>lowercases_ascii\<close> says that of a function.
\<close>

definition is_ascii :: "string \<Rightarrow> bool" where
  "is_ascii s = list_all (\<lambda>c. (of_char c :: nat) < 128) s"

definition ascii_upper :: "char \<Rightarrow> bool" where
  "ascii_upper c = (65 \<le> (of_char c :: nat) \<and> (of_char c :: nat) \<le> 90)"

definition ascii_lower :: "char \<Rightarrow> char" where
  "ascii_lower c = (if ascii_upper c then char_of ((of_char c :: nat) + 32) else c)"

definition lowercases_ascii :: "(string \<Rightarrow> string) \<Rightarrow> bool" where
  "lowercases_ascii lower = (\<forall>s. is_ascii s \<longrightarrow> lower s = map ascii_lower s)"

text \<open>
  \<open>setup(User, config)\<close> receives the user model. \<open>User.findOne(query, cb)\<close> calls back
  with \<open>(err, user)\<close> and \<open>user.comparePassword(password, cb)\<close> with \<open>(err, isMatch)\<close>;
  an \<open>err\<close> or \<open>user\<close> that is \<open>null\<close> (falsy) is \<open>None\<close>.
\<close>

record ('e, 'u) user_model =
  findOne :: "string \<Rightarrow> 'e option \<times> 'u option"
  comparePassword :: "'u \<Rightarrow> string \<Rightarrow> 'e option \<times> bool"

text \<open>
  What the strategy passes to passport's \<open>callback\<close>: \<open>callback(err)\<close>,
  \<open>callback(null, false, {message: m})\<close> or \<open>callback(null, user)\<close>.
\<close>

datatype ('e, 'u) verified = CallbackError 'e | CallbackFalse string | CallbackUser 'u

text \<open>The calls the strategy makes on the user model, in order.\<close>

datatype 'u model_call = FindOne string | ComparePassword 'u string

definition verify ::
  "(string \<Rightarrow> string) \<Rightarrow> ('e, 'u) user_model \<Rightarrow> string \<Rightarrow> string \<Rightarrow>
     ('e, 'u) verified \<times> 'u model_call list" where
  "verify toLowerCase User email password =
     (let query = toLowerCase email
      in case findOne User query of
           (Some err, user) \<Rightarrow> (CallbackError err, [FindOne query])
         | (None, None) \<Rightarrow> (CallbackFalse ''This email is not registered.'', [FindOne query])
         | (None, Some user) \<Rightarrow>
             (case comparePassword User user password of
                (Some err, isMatch) \<Rightarrow>
                  (CallbackError err, [FindOne query, ComparePassword user password])
              | (None, False) \<Rightarrow>
                  (CallbackFalse ''This password is not correct.'',
                   [FindOne query, ComparePassword user password])
              | (None, True) \<Rightarrow>
                  (CallbackUser user, [FindOne query, ComparePassword user password])))"

text \<open>A user model with one registered user, for the examples.\<close>

definition example_users :: "(string, string) user_model" where
  "example_users =
     \<lparr>findOne = (\<lambda>q. if q = ''ann@example.org'' then (None, Some ''ann'') else (None, None)),
      comparePassword = (\<lambda>u p. (None, u = ''ann'' \<and> p = ''secret''))\<rparr>"

section \<open>Failures of the backend\<close>

text \<open>
  Each of the five functions, when its \<open>db\<close> call rejects with \<open>e\<close>: one line is
  logged and the translation of \<open>e\<close> is thrown. These hold for every database module.
\<close>

lemma findByID_rejected:
  "db_get env k (outside w) = (Inl e, st') \<Longrightarrow>
   findByID env k w =
     (Inl (db_handleError env e),
      \<lparr>logged = logged w @ [LogError ''DB findByID - setting -'' (message e)], outside = st'\<rparr>)"
  by (simp add: findByID_def log_and_translate_def DOC_TYPE_def)

lemma find_rejected:
  "db_query env (SelectMetaStarWhereType (db_bucketName env) ''setting'') (outside w) = (Inl e, st') \<Longrightarrow>
   find_dao env w =
     (Inl (db_handleError env e),
      \<lparr>logged = logged w @ [LogError ''DB find - setting -'' (message e)], outside = st'\<rparr>)"
  by (simp add: find_dao_def log_and_translate_def DOC_TYPE_def)

lemma insert_rejected:
  "(case idArg of None \<Rightarrow> uuid_v1 env (outside w) | Some i \<Rightarrow> (i, outside w)) = (k, st0) \<Longrightarrow>
   db_insert env k (doc(''type'' \<mapsto> Str ''setting'')) (db_durabilityOptions env) st0 = (Inl e, st') \<Longrightarrow>
   insert_dao env doc idArg w =
     (Inl (db_handleError env e),
      \<lparr>logged = logged w @ [LogError ''DB insert - setting -'' (message e)], outside = st'\<rparr>)"
  by (simp add: insert_dao_def log_and_translate_def DOC_TYPE_def)

lemma update_rejected:
  "db_replace env (doc ''id'') ((db_removeMetadataFromDoc env doc)(''type'' \<mapsto> Str ''setting''))
     (doc ''cas'') (outside w) = (Inl e, st') \<Longrightarrow>
   update_dao env doc w =
     (Inl (db_handleError env e),
      \<lparr>logged = logged w @ [LogError ''DB update - setting -'' (message e)], outside = st'\<rparr>)"
  by (simp add: update_dao_def log_and_translate_def DOC_TYPE_def)

lemma remove_rejected:
  "db_remove env k (outside w) = (Inl e, st') \<Longrightarrow>
   remove_dao env k w =
     (Inl (db_handleError env e),
      \<lparr>logged = logged w @ [LogError ''DB remove - setting -'' (message e)], outside = st'\<rparr>)"
  by (simp add: remove_dao_def log_and_translate_def DOC_TYPE_def)

text \<open>
  C8. In each of \<open>findByID\<close>, \<open>find\<close>, \<open>insert\<close> (with and without an id), \<open>update\<close>
  and \<open>remove\<close>, for every database module and every error \<open>e\<close> its call rejects with:
  the function fails (the failure is not swallowed), what it throws is exactly
  \<open>db.handleError(e)\<close>, and the log grows by exactly one entry, which carries the
  operation's name, the document type \<open>setting\<close> and \<open>e.message\<close>.
\<close>

theorem backend_failure_logged_once_and_translated:
  "(db_get env k (outside w) = (Inl e, st') \<longrightarrow>
      findByID env k w =
        (Inl (db_handleError env e),
         \<lparr>logged = logged w @ [LogError ''DB findByID - setting -'' (message e)], outside = st'\<rparr>))
   \<and> (db_query env (SelectMetaStarWhereType (db_bucketName env) ''setting'') (outside w)
         = (Inl e, st') \<longrightarrow>
      find_dao env w =
        (Inl (db_handleError env e),
         \<lparr>logged = logged w @ [LogError ''DB find - setting -'' (message e)], outside = st'\<rparr>))
   \<and> (db_insert env k (doc(''type'' \<mapsto> Str ''setting'')) (db_durabilityOptions env) (outside w)
         = (Inl e, st') \<longrightarrow>
      insert_dao env doc (Some k) w =
        (Inl (db_handleError env e),
         \<lparr>logged = logged w @ [LogError ''DB insert - setting -'' (message e)], outside = st'\<rparr>))
   \<and> (uuid_v1 env (outside w) = (u, st0)
       \<and> db_insert env u (doc(''type'' \<mapsto> Str ''setting'')) (db_durabilityOptions env) st0
         = (Inl e, st0') \<longrightarrow>
      insert_dao env doc None w =
        (Inl (db_handleError env e),
         \<lparr>logged = logged w @ [LogError ''DB insert - setting -'' (message e)], outside = st0'\<rparr>))
   \<and> (db_replace env (doc ''id'') ((db_removeMetadataFromDoc env doc)(''type'' \<mapsto> Str ''setting''))
         (doc ''cas'') (outside w) = (Inl e, st') \<longrightarrow>
      update_dao env doc w =
        (Inl (db_handleError env e),
         \<lparr>logged = logged w @ [LogError ''DB update - setting -'' (message e)], outside = st'\<rparr>))
   \<and> (db_remove env k (outside w) = (Inl e, st') \<longrightarrow>
      remove_dao env k w =
        (Inl (db_handleError env e),
         \<lparr>logged = logged w @ [LogError ''DB remove - setting -'' (message e)], outside = st'\<rparr>))"
proof (intro conjI impI)
  assume "db_get env k (outside w) = (Inl e, st')"
  then show "findByID env k w =
        (Inl (db_handleError env e),
         \<lparr>logged = logged w @ [LogError ''DB findByID - setting -'' (message e)], outside = st'\<rparr>)"
    by (rule findByID_rejected)
next
  assume "db_query env (SelectMetaStarWhereType (db_bucketName env) ''setting'') (outside w)
         = (Inl e, st')"
  then show "find_dao env w =
        (Inl (db_handleError env e),
         \<lparr>logged = logged w @ [LogError ''DB find - setting -'' (message e)], outside = st'\<rparr>)"
    by (rule find_rejected)
next
  assume "db_insert env k (doc(''type'' \<mapsto> Str ''setting'')) (db_durabilityOptions env) (outside w)
         = (Inl e, st')"
  then show "insert_dao env doc (Some k) w =
        (Inl (db_handleError env e),
         \<lparr>logged = logged w @ [LogError ''DB insert - setting -'' (message e)], outside = st'\<rparr>)"
    by (simp add: insert_rejected [where idArg = "Some k"])
next
  assume "uuid_v1 env (outside w) = (u, st0)
       \<and> db_insert env u (doc(''type'' \<mapsto> Str ''setting'')) (db_durabilityOptions env) st0
         = (Inl e, st0')"
  then show "insert_dao env doc None w =
        (Inl (db_handleError env e),
         \<lparr>logged = logged w @ [LogError ''DB insert - setting -'' (message e)], outside = st0'\<rparr>)"
    by (simp add: insert_rejected [where idArg = None])
next
  assume "db_replace env (doc ''id'') ((db_removeMetadataFromDoc env doc)(''type'' \<mapsto> Str ''setting''))
         (doc ''cas'') (outside w) = (Inl e, st')"
  then show "update_dao env doc w =
        (Inl (db_handleError env e),
         \<lparr>logged = logged w @ [LogError ''DB update - setting -'' (message e)], outside = st'\<rparr>)"
    by (rule update_rejected)
next
  assume "db_remove env k (outside w) = (Inl e, st')"
  then show "remove_dao env k w =
        (Inl (db_handleError env e),
         \<lparr>logged = logged w @ [LogError ''DB remove - setting -'' (message e)], outside = st'\<rparr>)"
    by (rule remove_rejected)
qed

text \<open>The example worlds, for evaluation.\<close>

lemmas example_defs =
  one_setting_def shared_bucket_def start_def empty_bucket_def example_uuids_def

text \<open>The definitions of the database module of the specification, for evaluation.\<close>

lemmas spec_db_defs =
  couchbase_def spec_get_def spec_query_def spec_insert_def spec_replace_def spec_remove_def
  spec_handleError_def spec_removeMetadataFromDoc_def spec_uuid_v1_def

theorem backend_failure_logged_once_and_translated_witness:
  "findByID couchbase ''k'' (start\<lparr>outside := empty_bucket\<lparr>outage := Some ''timeout''\<rparr>\<rparr>) =
     (Inl (BackendError (JsError Failure ''timeout'')),
      \<lparr>logged = [LogError ''DB findByID - setting -'' ''timeout''],
       outside = empty_bucket\<lparr>outage := Some ''timeout''\<rparr>\<rparr>)
   \<and> find_dao couchbase (start\<lparr>outside := empty_bucket\<lparr>outage := Some ''timeout''\<rparr>\<rparr>) =
     (Inl (BackendError (JsError Failure ''timeout'')),
      \<lparr>logged = [LogError ''DB find - setting -'' ''timeout''],
       outside = empty_bucket\<lparr>outage := Some ''timeout''\<rparr>\<rparr>)
   \<and> insert_dao couchbase [''language'' \<mapsto> Str ''en''] (Some ''k'')
        (start\<lparr>outside := empty_bucket\<lparr>outage := Some ''timeout''\<rparr>\<rparr>) =
     (Inl (BackendError (JsError Failure ''timeout'')),
      \<lparr>logged = [LogError ''DB insert - setting -'' ''timeout''],
       outside = empty_bucket\<lparr>outage := Some ''timeout''\<rparr>\<rparr>)
   \<and> insert_dao couchbase [''language'' \<mapsto> Str ''en''] None
        (start\<lparr>outside := empty_bucket\<lparr>outage := Some ''timeout''\<rparr>\<rparr>) =
     (Inl (BackendError (JsError Failure ''timeout'')),
      \<lparr>logged = [LogError ''DB insert - setting -'' ''timeout''],
       outside = empty_bucket\<lparr>outage := Some ''timeout'', uuid_calls := 1\<rparr>\<rparr>)
   \<and> update_dao couchbase [''language'' \<mapsto> Str ''en'']
        (start\<lparr>outside := empty_bucket\<lparr>outage := Some ''timeout''\<rparr>\<rparr>) =
     (Inl (BackendError (JsError Failure ''timeout'')),
      \<lparr>logged = [LogError ''DB update - setting -'' ''timeout''],
       outside = empty_bucket\<lparr>outage := Some ''timeout''\<rparr>\<rparr>)
   \<and> remove_dao couchbase ''k'' (start\<lparr>outside := empty_bucket\<lparr>outage := Some ''timeout''\<rparr>\<rparr>) =
     (Inl (BackendError (JsError Failure ''timeout'')),
      \<lparr>logged = [LogError ''DB remove - setting -'' ''timeout''],
       outside = empty_bucket\<lparr>outage := Some ''timeout''\<rparr>\<rparr>)"
  using backend_failure_logged_once_and_translated
    [of couchbase "''k''" "start\<lparr>outside := empty_bucket\<lparr>outage := Some ''timeout''\<rparr>\<rparr>"
        "JsError Failure ''timeout''" "empty_bucket\<lparr>outage := Some ''timeout''\<rparr>"
        "[''language'' \<mapsto> Str ''en'']" "''u''"
        "empty_bucket\<lparr>outage := Some ''timeout'', uuid_calls := 1\<rparr>"
        "empty_bucket\<lparr>outage := Some ''timeout'', uuid_calls := 1\<rparr>"]
  by (simp add: spec_db_defs start_def empty_bucket_def example_uuids_def)

section \<open>The local strategy\<close>

lemma ascii_lower_not_upper: "\<not> ascii_upper (ascii_lower c)"
proof (cases "ascii_upper c")
  case True
  then have "(of_char (char_of ((of_char c :: nat) + 32)) :: nat) = of_char c + 32"
    by (simp add: ascii_upper_def of_char_of)
  with True show ?thesis
    by (simp add: ascii_lower_def ascii_upper_def)
next
  case False
  then show ?thesis by (simp add: ascii_lower_def)
qed

lemma lowercases_ascii_example: "lowercases_ascii (map ascii_lower)"
  by (simp add: lowercases_ascii_def)

lemma lower_examples:
  "map ascii_lower ''Ann@Example.ORG'' = ''ann@example.org''"
  "map ascii_lower ''ANN@example.org'' = ''ann@example.org''"
  "map ascii_lower ''Bob@Example.ORG'' = ''bob@example.org''"
  "is_ascii ''Ann@Example.ORG''"
  "is_ascii ''ANN@example.org''"
  "is_ascii ''Bob@Example.ORG''"
  by code_simp+

text \<open>
  C10. For every engine's \<open>toLowerCase\<close>, user model, email and password: the first
  call is \<open>User.findOne\<close> with \<open>toLowerCase\<close> applied to the email, and the email enters
  the outcome in no other way (two emails with the same lowercase form give the same
  calls and the same outcome). When the lookup yields no error and no user, the strategy
  calls back with \<open>false\<close> and the message \<open>This email is not registered.\<close>, and
  \<open>findOne\<close> is the only call it has made. \<open>comparePassword\<close> is called only on a user
  the lookup found, with the supplied password. A found user whose password does not
  match gives \<open>false\<close> with the message \<open>This password is not correct.\<close>, which is not the
  message of the first failure. With a \<open>toLowerCase\<close> that lowercases ASCII, as that of
  every engine does, and an ASCII email, the key of the lookup is the email with
  \<open>A\<close> to \<open>Z\<close> replaced by \<open>a\<close> to \<open>z\<close>: it has no capital ASCII letter, and emails that
  differ only in the case of ASCII letters are treated alike.
\<close>

theorem local_strategy_lookup_then_compare:
  "(\<exists>rest. snd (verify lower User email password) = FindOne (lower email) # rest)
   \<and> (lower email' = lower email \<longrightarrow>
        verify lower User email' password = verify lower User email password)
   \<and> (findOne User (lower email) = (None, None) \<longrightarrow>
        verify lower User email password =
          (CallbackFalse ''This email is not registered.'', [FindOne (lower email)]))
   \<and> (ComparePassword u p \<in> set (snd (verify lower User email password)) \<longrightarrow>
        findOne User (lower email) = (None, Some u) \<and> p = password)
   \<and> (findOne User (lower email) = (None, Some u)
        \<and> comparePassword User u password = (None, False) \<longrightarrow>
        verify lower User email password =
          (CallbackFalse ''This password is not correct.'',
           [FindOne (lower email), ComparePassword u password])
        \<and> fst (verify lower User email password) \<noteq> CallbackFalse ''This email is not registered.'')
   \<and> (lowercases_ascii lower \<and> is_ascii email \<longrightarrow>
        (\<exists>rest. snd (verify lower User email password) = FindOne (map ascii_lower email) # rest)
        \<and> length (map ascii_lower email) = length email
        \<and> (\<forall>c \<in> set (map ascii_lower email). \<not> ascii_upper c))
   \<and> (lowercases_ascii lower \<and> is_ascii email \<and> is_ascii email'
        \<and> map ascii_lower email' = map ascii_lower email \<longrightarrow>
        verify lower User email' password = verify lower User email password)"
proof -
  have first: "\<exists>rest. snd (verify lower User email password) = FindOne (lower email) # rest"
    by (auto simp: verify_def Let_def split: prod.splits option.splits bool.splits)
  have same: "lower email' = lower email \<Longrightarrow>
      verify lower User email' password = verify lower User email password"
    by (simp add: verify_def)
  have flow: "(findOne User (lower email) = (None, None) \<longrightarrow>
        verify lower User email password =
          (CallbackFalse ''This email is not registered.'', [FindOne (lower email)]))
   \<and> (ComparePassword u p \<in> set (snd (verify lower User email password)) \<longrightarrow>
        findOne User (lower email) = (None, Some u) \<and> p = password)
   \<and> (findOne User (lower email) = (None, Some u)
        \<and> comparePassword User u password = (None, False) \<longrightarrow>
        verify lower User email password =
          (CallbackFalse ''This password is not correct.'',
           [FindOne (lower email), ComparePassword u password])
        \<and> fst (verify lower User email password) \<noteq> CallbackFalse ''This email is not registered.'')"
    by (auto simp: verify_def Let_def split: prod.splits option.splits bool.splits)
  have ascii: "lowercases_ascii lower \<and> is_ascii email \<longrightarrow>
        (\<exists>rest. snd (verify lower User email password) = FindOne (map ascii_lower email) # rest)
        \<and> length (map ascii_lower email) = length email
        \<and> (\<forall>c \<in> set (map ascii_lower email). \<not> ascii_upper c)"
    using first by (auto simp: lowercases_ascii_def ascii_lower_not_upper)
  have alike: "lowercases_ascii lower \<and> is_ascii email \<and> is_ascii email'
        \<and> map ascii_lower email' = map ascii_lower email \<longrightarrow>
        verify lower User email' password = verify lower User email password"
    using same by (auto simp: lowercases_ascii_def)
  from first same flow ascii alike show ?thesis
    by blast
qed

theorem local_strategy_lookup_then_compare_witness:
  "verify (map ascii_lower) example_users ''Bob@Example.ORG'' ''secret'' =
     (CallbackFalse ''This email is not registered.'', [FindOne ''bob@example.org''])
   \<and> verify (map ascii_lower) example_users ''Ann@Example.ORG'' ''guess'' =
     (CallbackFalse ''This password is not correct.'',
      [FindOne ''ann@example.org'', ComparePassword ''ann'' ''guess''])
   \<and> verify (map ascii_lower) example_users ''ANN@example.org'' ''guess'' =
      verify (map ascii_lower) example_users ''Ann@Example.ORG'' ''guess''
   \<and> \<not> list_ex ascii_upper ''ann@example.org''"
proof -
  have bob: "findOne example_users (map ascii_lower ''Bob@Example.ORG'') = (None, None)"
    by (simp only: lower_examples) (simp add: example_users_def)
  have ann: "findOne example_users (map ascii_lower ''Ann@Example.ORG'') = (None, Some ''ann'')
             \<and> comparePassword example_users ''ann'' ''guess'' = (None, False)"
    by (simp only: lower_examples) (simp add: example_users_def)
  have engine: "lowercases_ascii (map ascii_lower) \<and> is_ascii ''Ann@Example.ORG''
      \<and> is_ascii ''ANN@example.org''
      \<and> map ascii_lower ''ANN@example.org'' = map ascii_lower ''Ann@Example.ORG''"
    by (simp only: lower_examples lowercases_ascii_example simp_thms)
  have unregistered: "verify (map ascii_lower) example_users ''Bob@Example.ORG'' ''secret'' =
     (CallbackFalse ''This email is not registered.'',
      [FindOne (map ascii_lower ''Bob@Example.ORG'')])"
    using bob
      local_strategy_lookup_then_compare
        [of "map ascii_lower" example_users "''Bob@Example.ORG''" "''secret''"
            "''Bob@Example.ORG''" "''ann''" "''secret''"]
    by blast
  have mismatch: "verify (map ascii_lower) example_users ''Ann@Example.ORG'' ''guess'' =
     (CallbackFalse ''This password is not correct.'',
      [FindOne (map ascii_lower ''Ann@Example.ORG''), ComparePassword ''ann'' ''guess''])"
    and alike: "verify (map ascii_lower) example_users ''ANN@example.org'' ''guess'' =
      verify (map ascii_lower) example_users ''Ann@Example.ORG'' ''guess''"
    and lowered: "\<forall>c \<in> set (map ascii_lower ''Ann@Example.ORG''). \<not> ascii_upper c"
    using ann engine
      local_strategy_lookup_then_compare
        [of "map ascii_lower" example_users "''Ann@Example.ORG''" "''guess''"
            "''ANN@example.org''" "''ann''" "''guess''"]
    by blast+
  from lowered have none_upper: "\<not> list_ex ascii_upper (map ascii_lower ''Ann@Example.ORG'')"
    unfolding list_ex_iff by blast
  from unregistered mismatch alike none_upper show ?thesis
    by (simp only: lower_examples simp_thms)
qed

section \<open>The DAO on the database module of the specification\<close>

lemma versions_issuedD:
  "versions_issued s \<Longrightarrow> map_of (docs s) k = Some d \<Longrightarrow> doc_version d \<le> clock s"
  by (auto simp: versions_issued_def list_all_iff dest!: map_of_SomeD)

lemma update_couchbase_missing:
  "outage (outside w) = None \<Longrightarrow> doc ''id'' = Some (Str k) \<Longrightarrow>
   map_of (docs (outside w)) k = None \<Longrightarrow>
   update_dao couchbase doc w =
     (Inl NotFound, w\<lparr>logged := logged w @ [LogError ''DB update - setting -'' ''key not found'']\<rparr>)"
  by (simp add: update_dao_def log_and_translate_def DOC_TYPE_def spec_db_defs)

lemma update_couchbase_stale:
  "outage (outside w) = None \<Longrightarrow> doc ''id'' = Some (Str k) \<Longrightarrow>
   map_of (docs (outside w)) k = Some d \<Longrightarrow> doc ''cas'' \<noteq> Some (Cas (doc_version d)) \<Longrightarrow>
   update_dao couchbase doc w =
     (Inl VersionConflict, w\<lparr>logged := logged w @ [LogError ''DB update - setting -'' ''cas mismatch'']\<rparr>)"
  by (simp add: update_dao_def log_and_translate_def DOC_TYPE_def spec_db_defs)

lemma update_couchbase_current:
  "outage (outside w) = None \<Longrightarrow> doc ''id'' = Some (Str k) \<Longrightarrow>
   map_of (docs (outside w)) k = Some d \<Longrightarrow> doc ''cas'' = Some (Cas (doc_version d)) \<Longrightarrow>
   update_dao couchbase doc w =
     (Inr [''cas'' \<mapsto> Cas (Suc (clock (outside w)))],
      w\<lparr>outside := (outside w)
          \<lparr>docs := AList.update k
                     \<lparr>doc_version = Suc (clock (outside w)),
                      doc_fields = (doc(''id'' := None, ''cas'' := None))(''type'' \<mapsto> Str ''setting'')\<rparr>
                     (docs (outside w)),
           clock := Suc (clock (outside w))\<rparr>\<rparr>)"
  by (simp add: update_dao_def log_and_translate_def DOC_TYPE_def spec_db_defs Let_def)

lemma update_couchbase_success_only_if:
  "update_dao couchbase doc w = (Inr r, w') \<Longrightarrow>
   \<exists>k d. doc ''id'' = Some (Str k) \<and> map_of (docs (outside w)) k = Some d
         \<and> doc ''cas'' = Some (Cas (doc_version d))"
  by (auto simp: update_dao_def log_and_translate_def spec_db_defs Let_def
           split: option.splits jsval.splits if_splits)

text \<open>
  C1. On the database module of the specification, with no outage and every stored
  version issued by the bucket's clock: for a document \<open>doc\<close> that carries the id \<open>k\<close>
  and the version \<open>v\<close>, \<open>update(doc)\<close> fails with \<open>NotFound\<close> when nothing is stored under
  \<open>k\<close>, fails with \<open>VersionConflict\<close> when the stored version is not \<open>v\<close>, and succeeds
  only if the stored version is \<open>v\<close>. When it is, the result carries a version \<open>v'\<close>
  other than \<open>v\<close>, \<open>v'\<close> is the version now stored, and a second \<open>update\<close> of the same
  document, still with \<open>v\<close>, fails with \<open>VersionConflict\<close>.
\<close>

theorem update_is_conditional_on_version:
  assumes "outage (outside w) = None"
    and "doc ''id'' = Some (Str k)"
    and "doc ''cas'' = Some (Cas v)"
    and "versions_issued (outside w)"
  shows "(stored_version (outside w) k = None \<longrightarrow>
            fst (update_dao couchbase doc w) = Inl NotFound)
       \<and> (stored_version (outside w) k = Some v0 \<and> v0 \<noteq> v \<longrightarrow>
            fst (update_dao couchbase doc w) = Inl VersionConflict)
       \<and> (fst (update_dao couchbase doc w) = Inr r \<longrightarrow> stored_version (outside w) k = Some v)
       \<and> (stored_version (outside w) k = Some v \<longrightarrow>
            (\<exists>v'. v' \<noteq> v
               \<and> fst (update_dao couchbase doc w) = Inr [''cas'' \<mapsto> Cas v']
               \<and> stored_version (outside (snd (update_dao couchbase doc w))) k = Some v'
               \<and> fst (update_dao couchbase doc (snd (update_dao couchbase doc w)))
                   = Inl VersionConflict))"
proof (intro conjI impI)
  assume "stored_version (outside w) k = None"
  with assms show "fst (update_dao couchbase doc w) = Inl NotFound"
    by (simp add: update_couchbase_missing stored_version_def)
next
  assume "stored_version (outside w) k = Some v0 \<and> v0 \<noteq> v"
  then obtain d where "map_of (docs (outside w)) k = Some d" "doc_version d \<noteq> v"
    by (auto simp: stored_version_def)
  with assms show "fst (update_dao couchbase doc w) = Inl VersionConflict"
    by (simp add: update_couchbase_stale [where k = k and d = d])
next
  assume "fst (update_dao couchbase doc w) = Inr r"
  then have "update_dao couchbase doc w = (Inr r, snd (update_dao couchbase doc w))"
    by (simp add: prod_eq_iff)
  from update_couchbase_success_only_if [OF this] assms
  show "stored_version (outside w) k = Some v"
    by (auto simp: stored_version_def)
next
  assume "stored_version (outside w) k = Some v"
  then obtain d where d: "map_of (docs (outside w)) k = Some d" "doc_version d = v"
    by (auto simp: stored_version_def)
  let ?v' = "Suc (clock (outside w))"
  let ?w' = "snd (update_dao couchbase doc w)"
  from d assms have first: "update_dao couchbase doc w =
     (Inr [''cas'' \<mapsto> Cas ?v'],
      w\<lparr>outside := (outside w)
          \<lparr>docs := AList.update k
                     \<lparr>doc_version = ?v',
                      doc_fields = (doc(''id'' := None, ''cas'' := None))(''type'' \<mapsto> Str ''setting'')\<rparr>
                     (docs (outside w)),
           clock := ?v'\<rparr>\<rparr>)"
    by (simp add: update_couchbase_current [where k = k and d = d])
  from d assms have new: "?v' \<noteq> v"
    using versions_issuedD [of "outside w" k d] by simp
  have stored: "map_of (docs (outside ?w')) k =
      Some \<lparr>doc_version = ?v',
            doc_fields = (doc(''id'' := None, ''cas'' := None))(''type'' \<mapsto> Str ''setting'')\<rparr>"
    by (simp add: first update_conv')
  have up: "outage (outside ?w') = None"
    using assms by (simp add: first)
  have second: "fst (update_dao couchbase doc ?w') = Inl VersionConflict"
    using update_couchbase_stale [where w = ?w' and doc = doc and k = k, OF up assms(2) stored]
      new assms(3) by simp
  show "\<exists>v'. v' \<noteq> v
               \<and> fst (update_dao couchbase doc w) = Inr [''cas'' \<mapsto> Cas v']
               \<and> stored_version (outside (snd (update_dao couchbase doc w))) k = Some v'
               \<and> fst (update_dao couchbase doc (snd (update_dao couchbase doc w)))
                   = Inl VersionConflict"
    using new first stored second by (intro exI [of _ ?v']) (simp add: stored_version_def)
qed

lemma one_setting_facts:
  "outage (outside one_setting) = None"
  "versions_issued (outside one_setting)"
  "stored_version (outside one_setting) ''k'' = Some 1"
  "stored_version (outside one_setting) ''j'' = None"
  by (simp_all add: one_setting_def empty_bucket_def versions_issued_def stored_version_def)

theorem update_is_conditional_on_version_witness:
  "fst (update_dao couchbase [''id'' \<mapsto> Str ''j'', ''cas'' \<mapsto> Cas 1] one_setting) = Inl NotFound
   \<and> fst (update_dao couchbase [''id'' \<mapsto> Str ''k'', ''cas'' \<mapsto> Cas 0] one_setting)
       = Inl VersionConflict
   \<and> (\<exists>v'. v' \<noteq> 1
        \<and> fst (update_dao couchbase [''id'' \<mapsto> Str ''k'', ''cas'' \<mapsto> Cas 1] one_setting)
            = Inr [''cas'' \<mapsto> Cas v']
        \<and> fst (update_dao couchbase [''id'' \<mapsto> Str ''k'', ''cas'' \<mapsto> Cas 1]
                 (snd (update_dao couchbase [''id'' \<mapsto> Str ''k'', ''cas'' \<mapsto> Cas 1] one_setting)))
            = Inl VersionConflict)"
proof -
  have missing: "fst (update_dao couchbase [''id'' \<mapsto> Str ''j'', ''cas'' \<mapsto> Cas 1] one_setting)
      = Inl NotFound"
    using update_is_conditional_on_version
      [of one_setting "[''id'' \<mapsto> Str ''j'', ''cas'' \<mapsto> Cas 1]" "''j''" 1 0 Map.empty]
    by (simp add: one_setting_facts)
  have stale: "fst (update_dao couchbase [''id'' \<mapsto> Str ''k'', ''cas'' \<mapsto> Cas 0] one_setting)
      = Inl VersionConflict"
    using update_is_conditional_on_version
      [of one_setting "[''id'' \<mapsto> Str ''k'', ''cas'' \<mapsto> Cas 0]" "''k''" 0 1 Map.empty]
    by (simp add: one_setting_facts)
  have current: "\<exists>v'. v' \<noteq> 1
        \<and> fst (update_dao couchbase [''id'' \<mapsto> Str ''k'', ''cas'' \<mapsto> Cas 1] one_setting)
            = Inr [''cas'' \<mapsto> Cas v']
        \<and> fst (update_dao couchbase [''id'' \<mapsto> Str ''k'', ''cas'' \<mapsto> Cas 1]
                 (snd (update_dao couchbase [''id'' \<mapsto> Str ''k'', ''cas'' \<mapsto> Cas 1] one_setting)))
            = Inl VersionConflict"
    using update_is_conditional_on_version
      [of one_setting "[''id'' \<mapsto> Str ''k'', ''cas'' \<mapsto> Cas 1]" "''k''" 1 0
          "[''cas'' \<mapsto> Cas 2]"]
    by (auto simp: one_setting_facts)
  from missing stale current show ?thesis by blast
qed

lemma findByID_couchbase_missing:
  "outage (outside w) = None \<Longrightarrow> map_of (docs (outside w)) k = None \<Longrightarrow>
   findByID couchbase k w =
     (Inl NotFound, w\<lparr>logged := logged w @ [LogError ''DB findByID - setting -'' ''key not found'']\<rparr>)"
  by (simp add: findByID_def log_and_translate_def DOC_TYPE_def spec_db_defs)

lemma findByID_couchbase_present:
  "outage (outside w) = None \<Longrightarrow> map_of (docs (outside w)) k = Some d \<Longrightarrow>
   findByID couchbase k w =
     (Inr ([''id'' \<mapsto> Str k, ''cas'' \<mapsto> Cas (doc_version d)] ++ doc_fields d), w)"
  by (simp add: findByID_def spec_db_defs)

lemma remove_couchbase_missing:
  "outage (outside w) = None \<Longrightarrow> map_of (docs (outside w)) k = None \<Longrightarrow>
   remove_dao couchbase k w =
     (Inl NotFound, w\<lparr>logged := logged w @ [LogError ''DB remove - setting -'' ''key not found'']\<rparr>)"
  by (simp add: remove_dao_def log_and_translate_def DOC_TYPE_def spec_db_defs)

lemma remove_couchbase_present:
  "outage (outside w) = None \<Longrightarrow> map_of (docs (outside w)) k = Some d \<Longrightarrow>
   remove_dao couchbase k w =
     (Inr (), w\<lparr>outside := (outside w)\<lparr>docs := AList.delete k (docs (outside w))\<rparr>\<rparr>)"
  by (simp add: remove_dao_def spec_db_defs)

text \<open>
  C7. On the database module of the specification, with no outage: \<open>remove(id)\<close> fails
  with \<open>NotFound\<close> when nothing is stored under \<open>id\<close>. When a document is stored there,
  at whatever version \<open>v\<close> (the call takes no version and \<open>db.remove\<close> is given none),
  \<open>remove(id)\<close> succeeds, nothing is stored under \<open>id\<close> afterwards, and a following
  \<open>findByID(id)\<close> fails with \<open>NotFound\<close>.
\<close>

theorem remove_is_unconditional:
  assumes "outage (outside w) = None"
  shows "(stored_version (outside w) k = None \<longrightarrow>
            fst (remove_dao couchbase k w) = Inl NotFound)
       \<and> (stored_version (outside w) k = Some v \<longrightarrow>
            fst (remove_dao couchbase k w) = Inr ()
            \<and> stored_version (outside (snd (remove_dao couchbase k w))) k = None
            \<and> fst (findByID couchbase k (snd (remove_dao couchbase k w))) = Inl NotFound)"
proof (intro conjI impI)
  assume "stored_version (outside w) k = None"
  with assms show "fst (remove_dao couchbase k w) = Inl NotFound"
    by (simp add: remove_couchbase_missing stored_version_def)
next
  assume "stored_version (outside w) k = Some v"
  then obtain d where d: "map_of (docs (outside w)) k = Some d"
    by (auto simp: stored_version_def)
  let ?w' = "w\<lparr>outside := (outside w)\<lparr>docs := AList.delete k (docs (outside w))\<rparr>\<rparr>"
  have removed: "remove_dao couchbase k w = (Inr (), ?w')"
    using assms d by (rule remove_couchbase_present)
  have gone: "map_of (docs (outside ?w')) k = None"
    by (simp add: delete_conv')
  have up: "outage (outside ?w') = None"
    using assms by simp
  show "fst (remove_dao couchbase k w) = Inr ()"
    by (simp add: removed)
  show "stored_version (outside (snd (remove_dao couchbase k w))) k = None"
    using gone by (simp add: removed stored_version_def)
  show "fst (findByID couchbase k (snd (remove_dao couchbase k w))) = Inl NotFound"
    using findByID_couchbase_missing [OF up gone] by (simp add: removed)
qed

theorem remove_is_unconditional_witness:
  "fst (remove_dao couchbase ''j'' one_setting) = Inl NotFound
   \<and> fst (remove_dao couchbase ''k'' one_setting) = Inr ()
   \<and> fst (findByID couchbase ''k'' (snd (remove_dao couchbase ''k'' one_setting))) = Inl NotFound"
  using remove_is_unconditional [of one_setting "''j''" 1]
    remove_is_unconditional [of one_setting "''k''" 1]
  by (simp add: one_setting_facts)

lemma map_of_snoc:
  "map_of (xs @ [(k, d)]) k' =
     (case map_of xs k' of Some x \<Rightarrow> Some x | None \<Rightarrow> if k' = k then Some d else None)"
  by (simp add: map_add_def split: option.splits)

lemma insert_couchbase_free:
  "outage (outside w) = None \<Longrightarrow> map_of (docs (outside w)) k = None \<Longrightarrow>
   insert_dao couchbase doc (Some k) w =
     (Inr [''cas'' \<mapsto> Cas (Suc (clock (outside w))), ''id'' \<mapsto> Str k],
      w\<lparr>outside := (outside w)
          \<lparr>docs := docs (outside w) @
                     [(k, \<lparr>doc_version = Suc (clock (outside w)),
                           doc_fields = doc(''type'' \<mapsto> Str ''setting'')\<rparr>)],
           clock := Suc (clock (outside w))\<rparr>\<rparr>)"
  by (simp add: insert_dao_def DOC_TYPE_def spec_db_defs Let_def)







lemma start_facts:
  "outage (outside start) = None"
  "stored_version (outside start) k = None"
  "uuid_source (outside start) = example_uuids"
  "uuid_calls (outside start) = 0"
  by (simp_all add: start_def empty_bucket_def stored_version_def)






lemma insert_couchbase_writes_typed:
  "stored_fields (outside (snd (insert_dao couchbase doc idArg w))) k = Some fs \<Longrightarrow>
   stored_fields (outside w) k = Some fs \<or> fs ''type'' = Some (Str ''setting'')"
  by (cases idArg)
     (auto simp: insert_dao_def log_and_translate_def spec_db_defs Let_def stored_fields_def
        DOC_TYPE_def map_of_snoc simp del: map_of_append split: option.splits if_splits)

lemma update_couchbase_writes_typed:
  "stored_fields (outside (snd (update_dao couchbase doc w))) k = Some fs \<Longrightarrow>
   stored_fields (outside w) k = Some fs \<or> fs ''type'' = Some (Str ''setting'')"
  by (auto simp: update_dao_def log_and_translate_def spec_db_defs Let_def stored_fields_def
        DOC_TYPE_def update_conv' split: option.splits jsval.splits if_splits)

lemma insert_couchbase_result_typed:
  "fst (insert_dao couchbase doc idArg w) = Inr r \<Longrightarrow> r ''id'' = Some (Str k) \<Longrightarrow>
   \<exists>fs. stored_fields (outside (snd (insert_dao couchbase doc idArg w))) k = Some fs
      \<and> fs ''type'' = Some (Str ''setting'')"
  by (cases idArg)
     (auto simp: insert_dao_def log_and_translate_def spec_db_defs Let_def stored_fields_def
        DOC_TYPE_def map_of_snoc simp del: map_of_append split: option.splits if_splits)

lemma update_couchbase_result_typed:
  "fst (update_dao couchbase doc w) = Inr r \<Longrightarrow> doc ''id'' = Some (Str k) \<Longrightarrow>
   \<exists>fs. stored_fields (outside (snd (update_dao couchbase doc w))) k = Some fs
      \<and> fs ''type'' = Some (Str ''setting'')"
  by (auto simp: update_dao_def log_and_translate_def spec_db_defs Let_def stored_fields_def
        DOC_TYPE_def update_conv' split: option.splits jsval.splits if_splits)

text \<open>
  C3. On the database module of the specification, for every payload, whatever its own
  \<open>type\<close> property: after a successful \<open>insert\<close> the document stored under the id of the
  result has \<open>type = 'setting'\<close>, after a successful \<open>update\<close> the document stored under
  the id of the payload has \<open>type = 'setting'\<close>, and after any \<open>insert\<close> or \<open>update\<close> every
  document in the bucket either is stored as it was before the call or has
  \<open>type = 'setting'\<close>: each document the DAO writes carries the discriminator.
\<close>

theorem type_is_set_on_every_write:
  "(fst (insert_dao couchbase doc idArg w) = Inr r \<and> r ''id'' = Some (Str k) \<longrightarrow>
      (\<exists>fs. stored_fields (outside (snd (insert_dao couchbase doc idArg w))) k = Some fs
         \<and> fs ''type'' = Some (Str ''setting'')))
   \<and> (fst (update_dao couchbase doc w) = Inr r' \<and> doc ''id'' = Some (Str k') \<longrightarrow>
      (\<exists>fs. stored_fields (outside (snd (update_dao couchbase doc w))) k' = Some fs
         \<and> fs ''type'' = Some (Str ''setting'')))
   \<and> (stored_fields (outside (snd (insert_dao couchbase doc idArg w))) j = Some fs \<longrightarrow>
      stored_fields (outside w) j = Some fs \<or> fs ''type'' = Some (Str ''setting''))
   \<and> (stored_fields (outside (snd (update_dao couchbase doc w))) j' = Some fs' \<longrightarrow>
      stored_fields (outside w) j' = Some fs' \<or> fs' ''type'' = Some (Str ''setting''))"
  using insert_couchbase_result_typed [of doc idArg w r k]
    update_couchbase_result_typed [of doc w r' k']
    insert_couchbase_writes_typed [of doc idArg w j fs]
    update_couchbase_writes_typed [of doc w j' fs']
  by blast


theorem type_is_set_on_every_write_witness:
  "fst (insert_dao couchbase [''type'' \<mapsto> Str ''user''] (Some ''n'') one_setting)
     = Inr [''cas'' \<mapsto> Cas 2, ''id'' \<mapsto> Str ''n'']
   \<and> (\<exists>fs. stored_fields
              (outside (snd (insert_dao couchbase [''type'' \<mapsto> Str ''user''] (Some ''n'') one_setting)))
              ''n'' = Some fs
         \<and> fs ''type'' = Some (Str ''setting''))
   \<and> fst (update_dao couchbase [''id'' \<mapsto> Str ''k'', ''cas'' \<mapsto> Cas 1, ''type'' \<mapsto> Str ''user'']
            one_setting)
     = Inr [''cas'' \<mapsto> Cas 2]
   \<and> (\<exists>fs. stored_fields
              (outside (snd (update_dao couchbase
                 [''id'' \<mapsto> Str ''k'', ''cas'' \<mapsto> Cas 1, ''type'' \<mapsto> Str ''user''] one_setting)))
              ''k'' = Some fs
         \<and> fs ''type'' = Some (Str ''setting''))"
proof -
  let ?new = "[''type'' \<mapsto> Str ''user'']"
  let ?upd = "[''id'' \<mapsto> Str ''k'', ''cas'' \<mapsto> Cas 1, ''type'' \<mapsto> Str ''user'']"
  have ins: "fst (insert_dao couchbase ?new (Some ''n'') one_setting)
      = Inr [''cas'' \<mapsto> Cas 2, ''id'' \<mapsto> Str ''n'']"
    by (simp add: insert_dao_def spec_db_defs example_defs Let_def numeral_2_eq_2)
  have upd: "fst (update_dao couchbase ?upd one_setting) = Inr [''cas'' \<mapsto> Cas 2]"
    by (simp add: update_dao_def spec_db_defs example_defs Let_def numeral_2_eq_2)
  have ins_after: "stored_fields (outside (snd (insert_dao couchbase ?new (Some ''n'') one_setting))) ''n''
      = Some [''type'' \<mapsto> Str ''setting'']"
    by (simp add: insert_dao_def spec_db_defs example_defs Let_def stored_fields_def DOC_TYPE_def)
  have upd_after: "stored_fields (outside (snd (update_dao couchbase ?upd one_setting))) ''k''
      = Some [''type'' \<mapsto> Str ''setting'']"
    by (simp add: update_dao_def spec_db_defs example_defs Let_def stored_fields_def DOC_TYPE_def)
  from type_is_set_on_every_write
    [of ?new "Some ''n''" one_setting "[''cas'' \<mapsto> Cas 2, ''id'' \<mapsto> Str ''n'']" "''n''"
        "[''cas'' \<mapsto> Cas 2]" "''k''" "''n''" "[''type'' \<mapsto> Str ''setting'']"
        "''n''" "[''type'' \<mapsto> Str ''setting'']"]
    type_is_set_on_every_write
    [of ?upd "Some ''n''" one_setting "[''cas'' \<mapsto> Cas 2, ''id'' \<mapsto> Str ''n'']" "''n''"
        "[''cas'' \<mapsto> Cas 2]" "''k''" "''n''" "[''type'' \<mapsto> Str ''setting'']"
        "''k''" "[''type'' \<mapsto> Str ''setting'']"]
    ins upd ins_after upd_after
  show ?thesis by simp
qed

lemma find_couchbase_up:
  "outage (outside w) = None \<Longrightarrow>
   find_dao couchbase w = (Inr (map to_row (filter (has_type ''setting'') (docs (outside w)))), w)"
  by (simp add: find_dao_def spec_db_defs DOC_TYPE_def)

lemma find_couchbase_outage:
  "outage (outside w) = Some m \<Longrightarrow>
   find_dao couchbase w =
     (Inl (BackendError (JsError Failure m)),
      w\<lparr>logged := logged w @ [LogError ''DB find - setting -'' m]\<rparr>)"
  by (simp add: find_dao_def log_and_translate_def spec_db_defs DOC_TYPE_def)

lemma length_filter_complement:
  "length (filter P xs) + length (filter (\<lambda>x. \<not> P x) xs) = length xs"
  by (induction xs) auto

text \<open>
  C6. On the database module of the specification. With no outage, \<open>find()\<close> returns one
  row for each stored document whose \<open>type\<close> is \<open>'setting'\<close> and no other row: when the
  bucket holds \<open>N\<close> documents of that type and \<open>M\<close> of other types, the result has exactly
  \<open>N\<close> rows, out of \<open>N + M\<close> documents. A successful \<open>insert\<close> of the DAO adds exactly one
  row to what \<open>find()\<close> returns, and a document of another type put into the bucket
  adds none. During an outage \<open>find()\<close> fails with \<open>BackendError\<close>.
\<close>

theorem find_returns_the_settings:
  "(outage (outside w) = None
      \<and> length (filter (has_type ''setting'') (docs (outside w))) = N
      \<and> length (filter (\<lambda>kd. \<not> has_type ''setting'' kd) (docs (outside w))) = M \<longrightarrow>
      (\<exists>rows. find_dao couchbase w = (Inr rows, w)
         \<and> length rows = N
         \<and> length rows + M = length (docs (outside w))
         \<and> (\<forall>r. r \<in> set rows \<longleftrightarrow>
               (\<exists>kd \<in> set (docs (outside w)). has_type ''setting'' kd \<and> r = to_row kd))))
   \<and> (outage (outside w) = None \<and> stored_version (outside w) k = None \<longrightarrow>
      (\<exists>rows r. fst (find_dao couchbase w) = Inr rows
         \<and> fst (find_dao couchbase (snd (insert_dao couchbase doc (Some k) w))) = Inr (rows @ [r])
         \<and> row_id r = k))
   \<and> (outage (outside w) = None \<and> stored_version (outside w) k = None
        \<and> payload ''type'' \<noteq> Some (Str ''setting'') \<longrightarrow>
      fst (find_dao couchbase
             (w\<lparr>outside := snd (spec_insert k payload Map.empty (outside w))\<rparr>))
        = fst (find_dao couchbase w)
      \<and> length (docs (snd (spec_insert k payload Map.empty (outside w))))
          = Suc (length (docs (outside w))))
   \<and> (outage (outside w) = Some m \<longrightarrow>
      fst (find_dao couchbase w) = Inl (BackendError (JsError Failure m)))"
proof (intro conjI impI)
  assume h: "outage (outside w) = None
      \<and> length (filter (has_type ''setting'') (docs (outside w))) = N
      \<and> length (filter (\<lambda>kd. \<not> has_type ''setting'' kd) (docs (outside w))) = M"
  let ?rows = "map to_row (filter (has_type ''setting'') (docs (outside w)))"
  have "find_dao couchbase w = (Inr ?rows, w)"
    using h by (simp add: find_couchbase_up)
  moreover have "length ?rows = N"
    using h by simp
  moreover have "length ?rows + M = length (docs (outside w))"
    using h length_filter_complement [of "has_type ''setting''" "docs (outside w)"] by simp
  moreover have "\<forall>r. r \<in> set ?rows \<longleftrightarrow>
      (\<exists>kd \<in> set (docs (outside w)). has_type ''setting'' kd \<and> r = to_row kd)"
    by auto
  ultimately show "\<exists>rows. find_dao couchbase w = (Inr rows, w)
         \<and> length rows = N
         \<and> length rows + M = length (docs (outside w))
         \<and> (\<forall>r. r \<in> set rows \<longleftrightarrow>
               (\<exists>kd \<in> set (docs (outside w)). has_type ''setting'' kd \<and> r = to_row kd))"
    by blast
next
  assume h: "outage (outside w) = None \<and> stored_version (outside w) k = None"
  then have up: "outage (outside w) = None" and free: "map_of (docs (outside w)) k = None"
    by (simp_all add: stored_version_def)
  let ?d = "\<lparr>doc_version = Suc (clock (outside w)), doc_fields = doc(''type'' \<mapsto> Str ''setting'')\<rparr>"
  let ?rows = "map to_row (filter (has_type ''setting'') (docs (outside w)))"
  have before: "fst (find_dao couchbase w) = Inr ?rows"
    using up by (simp add: find_couchbase_up)
  have after: "fst (find_dao couchbase (snd (insert_dao couchbase doc (Some k) w)))
      = Inr (?rows @ [to_row (k, ?d)])"
    using up by (simp add: insert_couchbase_free [OF up free] find_couchbase_up has_type_def)
  have "row_id (to_row (k, ?d)) = k"
    by (simp add: to_row_def)
  with before after
  show "\<exists>rows r. fst (find_dao couchbase w) = Inr rows
         \<and> fst (find_dao couchbase (snd (insert_dao couchbase doc (Some k) w))) = Inr (rows @ [r])
         \<and> row_id r = k"
    by blast
next
  assume h: "outage (outside w) = None \<and> stored_version (outside w) k = None
        \<and> payload ''type'' \<noteq> Some (Str ''setting'')"
  then have up: "outage (outside w) = None" and free: "map_of (docs (outside w)) k = None"
    by (simp_all add: stored_version_def)
  from h up free
  show "fst (find_dao couchbase
             (w\<lparr>outside := snd (spec_insert k payload Map.empty (outside w))\<rparr>))
        = fst (find_dao couchbase w)"
    by (simp add: find_couchbase_up spec_insert_def Let_def has_type_def)
  from up free
  show "length (docs (snd (spec_insert k payload Map.empty (outside w))))
          = Suc (length (docs (outside w)))"
    by (simp add: spec_insert_def Let_def)
next
  assume "outage (outside w) = Some m"
  then show "fst (find_dao couchbase w) = Inl (BackendError (JsError Failure m))"
    by (simp add: find_couchbase_outage)
qed


lemma shared_bucket_facts:
  "outage (outside shared_bucket) = None"
  "length (filter (has_type ''setting'') (docs (outside shared_bucket))) = 2"
  "length (filter (\<lambda>kd. \<not> has_type ''setting'' kd) (docs (outside shared_bucket))) = 1"
  "length (docs (outside shared_bucket)) = 3"
  "stored_version (outside shared_bucket) ''n'' = None"
  by (simp_all add: example_defs has_type_def stored_version_def)

theorem find_returns_the_settings_witness:
  "(\<exists>rows. find_dao couchbase shared_bucket = (Inr rows, shared_bucket)
      \<and> length rows = 2 \<and> length rows + 1 = 3)
   \<and> (\<exists>rows r. fst (find_dao couchbase shared_bucket) = Inr rows
         \<and> fst (find_dao couchbase
                  (snd (insert_dao couchbase [''language'' \<mapsto> Str ''de''] (Some ''n'') shared_bucket)))
             = Inr (rows @ [r])
         \<and> row_id r = ''n'')
   \<and> fst (find_dao couchbase
            (shared_bucket\<lparr>outside :=
               snd (spec_insert ''n'' [''type'' \<mapsto> Str ''user''] Map.empty (outside shared_bucket))\<rparr>))
       = fst (find_dao couchbase shared_bucket)
   \<and> fst (find_dao couchbase
            (shared_bucket\<lparr>outside := (outside shared_bucket)\<lparr>outage := Some ''timeout''\<rparr>\<rparr>))
       = Inl (BackendError (JsError Failure ''timeout''))"
proof -
  have other: "[''type'' \<mapsto> Str ''user''] ''type'' \<noteq> Some (Str ''setting'')"
    by simp
  have down: "outage (outside
      (shared_bucket\<lparr>outside := (outside shared_bucket)\<lparr>outage := Some ''timeout''\<rparr>\<rparr>))
      = Some ''timeout''"
    by simp
  from find_returns_the_settings
    [of shared_bucket 2 1 "''n''" "[''language'' \<mapsto> Str ''de'']" "[''type'' \<mapsto> Str ''user'']"
        "''timeout''"]
    find_returns_the_settings
    [of "shared_bucket\<lparr>outside := (outside shared_bucket)\<lparr>outage := Some ''timeout''\<rparr>\<rparr>"
        2 1 "''n''" "[''language'' \<mapsto> Str ''de'']" "[''type'' \<mapsto> Str ''user'']" "''timeout''"]
    other down
  show ?thesis
    by (simp add: shared_bucket_facts) blast
qed

lemma findByID_resolved:
  "db_get env k (outside w) = (Inr data, st') \<Longrightarrow>
   findByID env k w =
     (Inr ([''id'' \<mapsto> Str k, ''cas'' \<mapsto> Cas (data_cas data)] ++ data_value data),
      w\<lparr>outside := st'\<rparr>)"
  by (simp add: findByID_def)

lemma findByID_after_insert:
  assumes "outage (outside w) = None" and "map_of (docs (outside w)) k = None"
  shows "fst (findByID couchbase k (snd (insert_dao couchbase doc (Some k) w))) =
     Inr ([''id'' \<mapsto> Str k, ''cas'' \<mapsto> Cas (Suc (clock (outside w)))]
          ++ doc(''type'' \<mapsto> Str ''setting''))"
proof -
  let ?d = "\<lparr>doc_version = Suc (clock (outside w)), doc_fields = doc(''type'' \<mapsto> Str ''setting'')\<rparr>"
  let ?w' = "snd (insert_dao couchbase doc (Some k) w)"
  have "outage (outside ?w') = None"
    using assms by (simp add: insert_couchbase_free)
  moreover have "map_of (docs (outside ?w')) k = Some ?d"
    using assms by (simp add: insert_couchbase_free map_of_snoc del: map_of_append)
  ultimately show ?thesis
    using findByID_couchbase_present [of ?w' k ?d] by simp
qed

text \<open>
  C9. \<open>findByID\<close> returns \<open>Object.assign({id, cas}, data.value)\<close>. For every database
  module, when \<open>db.get\<close> resolves with \<open>data\<close>, the result is the merge of the attached
  metadata under the stored value: every key of the stored value has its stored value in
  the result, \<open>id\<close> and \<open>cas\<close> are the requested id and the version of the backend when
  the stored value lacks them, and no other key is present. So when the stored value has
  an \<open>id\<close> key, the \<open>id\<close> of the result is that stored value and not the requested id, and
  when it has a \<open>cas\<close> key, the \<open>cas\<close> of the result is that stored value and not the
  version of the backend. Such documents are reachable on the database module of the
  specification: \<open>insert\<close> hands the payload to \<open>db.insert\<close> with its \<open>id\<close> and \<open>cas\<close>
  keys, and \<open>findByID\<close> after an \<open>insert\<close> of a payload with an \<open>id\<close> key \<open>x\<close> and a \<open>cas\<close>
  key \<open>c\<close> under the key \<open>j\<close> returns \<open>id = x\<close> and \<open>cas = c\<close>, while the document is
  stored under \<open>j\<close> at the version \<open>v\<close> of the backend; after an \<open>insert\<close> of a payload
  with neither key it returns \<open>id = j\<close> and \<open>cas = v\<close>.
\<close>

theorem stored_id_and_cas_override_metadata:
  "(db_get env k (outside w) = (Inr data, st') \<longrightarrow>
      fst (findByID env k w)
        = Inr ([''id'' \<mapsto> Str k, ''cas'' \<mapsto> Cas (data_cas data)] ++ data_value data)
      \<and> (\<exists>r. fst (findByID env k w) = Inr r
            \<and> (\<forall>f. r f = (case data_value data f of
                             Some y \<Rightarrow> Some y
                           | None \<Rightarrow> if f = ''id'' then Some (Str k)
                                     else if f = ''cas'' then Some (Cas (data_cas data))
                                     else None))))
   \<and> (db_get env k (outside w) = (Inr data, st') \<and> data_value data ''id'' = Some x \<longrightarrow>
      (\<exists>r. fst (findByID env k w) = Inr r \<and> r ''id'' = Some x))
   \<and> (db_get env k (outside w) = (Inr data, st') \<and> data_value data ''cas'' = Some c \<longrightarrow>
      (\<exists>r. fst (findByID env k w) = Inr r \<and> r ''cas'' = Some c))
   \<and> (db_get env k (outside w) = (Inr data, st') \<and> data_value data ''id'' = None \<longrightarrow>
      (\<exists>r. fst (findByID env k w) = Inr r \<and> r ''id'' = Some (Str k)))
   \<and> (db_get env k (outside w) = (Inr data, st') \<and> data_value data ''cas'' = None \<longrightarrow>
      (\<exists>r. fst (findByID env k w) = Inr r \<and> r ''cas'' = Some (Cas (data_cas data))))
   \<and> (outage (outside w0) = None \<and> stored_version (outside w0) j = None
        \<and> doc ''id'' = Some x \<and> doc ''cas'' = Some c \<longrightarrow>
      (\<exists>r v. fst (findByID couchbase j (snd (insert_dao couchbase doc (Some j) w0))) = Inr r
         \<and> r ''id'' = Some x \<and> r ''cas'' = Some c
         \<and> stored_version (outside (snd (insert_dao couchbase doc (Some j) w0))) j = Some v
         \<and> (x \<noteq> Str j \<longrightarrow> r ''id'' \<noteq> Some (Str j))
         \<and> (c \<noteq> Cas v \<longrightarrow> r ''cas'' \<noteq> Some (Cas v))))
   \<and> (outage (outside w0) = None \<and> stored_version (outside w0) j = None
        \<and> doc' ''id'' = None \<and> doc' ''cas'' = None \<longrightarrow>
      (\<exists>r v. fst (findByID couchbase j (snd (insert_dao couchbase doc' (Some j) w0))) = Inr r
         \<and> r ''id'' = Some (Str j) \<and> r ''cas'' = Some (Cas v)
         \<and> stored_version (outside (snd (insert_dao couchbase doc' (Some j) w0))) j = Some v))"
proof -
  have merge: "db_get env k (outside w) = (Inr data, st') \<Longrightarrow>
      fst (findByID env k w)
        = Inr ([''id'' \<mapsto> Str k, ''cas'' \<mapsto> Cas (data_cas data)] ++ data_value data)"
    by (simp add: findByID_resolved [of env k w data st'])
  have keys: "([''id'' \<mapsto> Str k, ''cas'' \<mapsto> Cas (data_cas data)] ++ data_value data) f =
      (case data_value data f of
         Some y \<Rightarrow> Some y
       | None \<Rightarrow> if f = ''id'' then Some (Str k)
                 else if f = ''cas'' then Some (Cas (data_cas data))
                 else None)" for f
    by (simp add: map_add_def split: option.splits)
  have general: "db_get env k (outside w) = (Inr data, st') \<longrightarrow>
      fst (findByID env k w)
        = Inr ([''id'' \<mapsto> Str k, ''cas'' \<mapsto> Cas (data_cas data)] ++ data_value data)
      \<and> (\<exists>r. fst (findByID env k w) = Inr r
            \<and> (\<forall>f. r f = (case data_value data f of
                             Some y \<Rightarrow> Some y
                           | None \<Rightarrow> if f = ''id'' then Some (Str k)
                                     else if f = ''cas'' then Some (Cas (data_cas data))
                                     else None)))"
    using merge keys by blast
  have stored_id: "db_get env k (outside w) = (Inr data, st') \<and> data_value data ''id'' = Some x \<longrightarrow>
      (\<exists>r. fst (findByID env k w) = Inr r \<and> r ''id'' = Some x)"
    using merge by (auto simp: map_add_def)
  have stored_cas: "db_get env k (outside w) = (Inr data, st') \<and> data_value data ''cas'' = Some c \<longrightarrow>
      (\<exists>r. fst (findByID env k w) = Inr r \<and> r ''cas'' = Some c)"
    using merge by (auto simp: map_add_def)
  have attached_id: "db_get env k (outside w) = (Inr data, st') \<and> data_value data ''id'' = None \<longrightarrow>
      (\<exists>r. fst (findByID env k w) = Inr r \<and> r ''id'' = Some (Str k))"
    using merge by (auto simp: map_add_def)
  have attached_cas: "db_get env k (outside w) = (Inr data, st') \<and> data_value data ''cas'' = None \<longrightarrow>
      (\<exists>r. fst (findByID env k w) = Inr r \<and> r ''cas'' = Some (Cas (data_cas data)))"
    using merge by (auto simp: map_add_def)
  have reach: "\<exists>r v. fst (findByID couchbase j (snd (insert_dao couchbase doc (Some j) w0))) = Inr r
         \<and> r ''id'' = Some x \<and> r ''cas'' = Some c
         \<and> stored_version (outside (snd (insert_dao couchbase doc (Some j) w0))) j = Some v
         \<and> (x \<noteq> Str j \<longrightarrow> r ''id'' \<noteq> Some (Str j))
         \<and> (c \<noteq> Cas v \<longrightarrow> r ''cas'' \<noteq> Some (Cas v))"
    if h: "outage (outside w0) = None \<and> stored_version (outside w0) j = None
        \<and> doc ''id'' = Some x \<and> doc ''cas'' = Some c"
  proof -
    from h have up: "outage (outside w0) = None" and free: "map_of (docs (outside w0)) j = None"
      by (simp_all add: stored_version_def)
    let ?r = "[''id'' \<mapsto> Str j, ''cas'' \<mapsto> Cas (Suc (clock (outside w0)))]
              ++ doc(''type'' \<mapsto> Str ''setting'')"
    have found: "fst (findByID couchbase j (snd (insert_dao couchbase doc (Some j) w0))) = Inr ?r"
      using up free by (rule findByID_after_insert)
    have stored: "stored_version (outside (snd (insert_dao couchbase doc (Some j) w0))) j
        = Some (Suc (clock (outside w0)))"
      using up free
      by (simp add: insert_couchbase_free stored_version_def map_of_snoc del: map_of_append)
    have "?r ''id'' = Some x" and "?r ''cas'' = Some c"
      using h by (simp_all add: map_add_def)
    with found stored show ?thesis
      by (intro exI [of _ ?r] exI [of _ "Suc (clock (outside w0))"]) simp
  qed
  have plain: "\<exists>r v. fst (findByID couchbase j (snd (insert_dao couchbase doc' (Some j) w0))) = Inr r
         \<and> r ''id'' = Some (Str j) \<and> r ''cas'' = Some (Cas v)
         \<and> stored_version (outside (snd (insert_dao couchbase doc' (Some j) w0))) j = Some v"
    if h: "outage (outside w0) = None \<and> stored_version (outside w0) j = None
        \<and> doc' ''id'' = None \<and> doc' ''cas'' = None"
  proof -
    from h have up: "outage (outside w0) = None" and free: "map_of (docs (outside w0)) j = None"
      by (simp_all add: stored_version_def)
    let ?r = "[''id'' \<mapsto> Str j, ''cas'' \<mapsto> Cas (Suc (clock (outside w0)))]
              ++ doc'(''type'' \<mapsto> Str ''setting'')"
    have found: "fst (findByID couchbase j (snd (insert_dao couchbase doc' (Some j) w0))) = Inr ?r"
      using up free by (rule findByID_after_insert)
    have stored: "stored_version (outside (snd (insert_dao couchbase doc' (Some j) w0))) j
        = Some (Suc (clock (outside w0)))"
      using up free
      by (simp add: insert_couchbase_free stored_version_def map_of_snoc del: map_of_append)
    have "?r ''id'' = Some (Str j)" and "?r ''cas'' = Some (Cas (Suc (clock (outside w0))))"
      using h by (simp_all add: map_add_def)
    with found stored show ?thesis
      by (intro exI [of _ ?r] exI [of _ "Suc (clock (outside w0))"]) simp
  qed
  from general stored_id stored_cas attached_id attached_cas reach plain show ?thesis
    by blast
qed

theorem stored_id_and_cas_override_metadata_witness:
  "(\<exists>r. fst (findByID couchbase ''j''
            (snd (insert_dao couchbase [''id'' \<mapsto> Str ''x'', ''cas'' \<mapsto> Cas 9] (Some ''j'') start)))
          = Inr r
      \<and> r ''id'' = Some (Str ''x'') \<and> r ''id'' \<noteq> Some (Str ''j'')
      \<and> r ''cas'' = Some (Cas 9)
      \<and> stored_version
           (outside (snd (insert_dao couchbase [''id'' \<mapsto> Str ''x'', ''cas'' \<mapsto> Cas 9] (Some ''j'') start)))
           ''j'' = Some 1)
   \<and> fst (findByID couchbase ''k'' one_setting)
       = Inr ([''id'' \<mapsto> Str ''k'', ''cas'' \<mapsto> Cas 1]
              ++ [''language'' \<mapsto> Str ''en'', ''type'' \<mapsto> Str ''setting''])
   \<and> (\<exists>r. fst (findByID couchbase ''k'' one_setting) = Inr r
         \<and> r ''id'' = Some (Str ''k'') \<and> r ''cas'' = Some (Cas 1))
   \<and> (\<exists>r v. fst (findByID couchbase ''j''
            (snd (insert_dao couchbase [''language'' \<mapsto> Str ''en''] (Some ''j'') start))) = Inr r
         \<and> r ''id'' = Some (Str ''j'') \<and> r ''cas'' = Some (Cas v))"
proof -
  let ?doc = "[''id'' \<mapsto> Str ''x'', ''cas'' \<mapsto> Cas 9]"
  let ?plain = "[''language'' \<mapsto> Str ''en'']"
  let ?w = "snd (insert_dao couchbase ?doc (Some ''j'') start)"
  let ?stored = "\<lparr>data_cas = 1, data_value = [''language'' \<mapsto> Str ''en'', ''type'' \<mapsto> Str ''setting'']\<rparr>"
  have got: "db_get couchbase ''j'' (outside ?w) =
      (Inr \<lparr>data_cas = 1, data_value = ?doc(''type'' \<mapsto> Str ''setting'')\<rparr>, outside ?w)"
    by (simp add: insert_dao_def spec_db_defs example_defs Let_def DOC_TYPE_def)
  have stored: "stored_version (outside ?w) ''j'' = Some 1"
    by (simp add: insert_dao_def spec_db_defs example_defs Let_def stored_version_def)
  have with_keys: "\<exists>r. fst (findByID couchbase ''j'' ?w) = Inr r
      \<and> r ''id'' = Some (Str ''x'') \<and> r ''id'' \<noteq> Some (Str ''j'')
      \<and> r ''cas'' = Some (Cas 9)
      \<and> stored_version (outside ?w) ''j'' = Some 1"
    using stored_id_and_cas_override_metadata
      [of couchbase "''j''" ?w "\<lparr>data_cas = 1, data_value = ?doc(''type'' \<mapsto> Str ''setting'')\<rparr>"
          "outside ?w" "Str ''x''" "Cas 9" start "''j''" ?doc ?plain]
      got stored
    by (auto simp: start_facts)
  have got_k: "db_get couchbase ''k'' (outside one_setting) = (Inr ?stored, outside one_setting)"
    by (simp add: spec_db_defs example_defs)
  have lacks: "data_value ?stored ''id'' = None \<and> data_value ?stored ''cas'' = None"
    by simp
  have plain_keys: "?plain ''id'' = None \<and> ?plain ''cas'' = None"
    by simp
  note at_k = stored_id_and_cas_override_metadata
      [of couchbase "''k''" one_setting ?stored "outside one_setting" "Str ''x''" "Cas 9"
          start "''j''" ?doc ?plain]
  have merged: "fst (findByID couchbase ''k'' one_setting)
       = Inr ([''id'' \<mapsto> Str ''k'', ''cas'' \<mapsto> Cas 1]
              ++ [''language'' \<mapsto> Str ''en'', ''type'' \<mapsto> Str ''setting''])"
    using at_k got_k by simp
  have attached: "\<exists>r. fst (findByID couchbase ''k'' one_setting) = Inr r
         \<and> r ''id'' = Some (Str ''k'') \<and> r ''cas'' = Some (Cas 1)"
    using at_k got_k lacks by auto
  have after_plain: "\<exists>r v. fst (findByID couchbase ''j''
            (snd (insert_dao couchbase ?plain (Some ''j'') start))) = Inr r
         \<and> r ''id'' = Some (Str ''j'') \<and> r ''cas'' = Some (Cas v)"
    using at_k plain_keys by (auto simp: start_facts)
  from with_keys merged attached after_plain show ?thesis
    by blast
qed

text \<open>
  When the stored field set has neither an \<open>id\<close> nor a \<open>cas\<close> key, as after \<open>update\<close>,
  \<open>findByID\<close> returns the stored fields with the requested id and the version of the
  backend attached.
\<close>

lemma findByID_couchbase_attaches:
  assumes "outage (outside w) = None" and "map_of (docs (outside w)) k = Some d"
    and "doc_fields d ''id'' = None" and "doc_fields d ''cas'' = None"
  shows "\<exists>r. fst (findByID couchbase k w) = Inr r
           \<and> r ''id'' = Some (Str k) \<and> r ''cas'' = Some (Cas (doc_version d))
           \<and> (\<forall>f. f \<noteq> ''id'' \<and> f \<noteq> ''cas'' \<longrightarrow> r f = doc_fields d f)"
  using assms
  by (simp add: findByID_couchbase_present [OF assms(1,2)] map_add_def split: option.splits)

text \<open>
  C4, at \<open>insert({id: 'x', language: 'en'}, 'k')\<close> followed by \<open>findByID('k')\<close> on the
  empty bucket: the call succeeds and the \<open>id\<close> of its result is the stored \<open>'x'\<close>, not the
  requested \<open>'k'\<close>.
\<close>

theorem findByID_returns_the_stored_id:
  "(case fst (findByID couchbase ''k''
        (snd (insert_dao couchbase [''id'' \<mapsto> Str ''x'', ''language'' \<mapsto> Str ''en''] (Some ''k'') start)))
    of Inl e \<Rightarrow> None | Inr r \<Rightarrow> r ''id'') = Some (Str ''x'')"
  by (simp add: findByID_def insert_dao_def spec_db_defs example_defs Let_def)

text \<open>
  C2, at \<open>insert({id: 'x', cas: 9, language: 'en'}, 'k')\<close> on the empty bucket: the field
  set stored under \<open>k\<close> contains the keys \<open>id\<close> and \<open>cas\<close> of the payload. \<open>update\<close> with
  \<open>{id: 'k', cas: 1, language: 'fr'}\<close> on the bucket that holds \<open>k\<close> at version 1 stores
  neither key.
\<close>

theorem insert_stores_id_and_cas_of_payload:
  "map_option (\<lambda>fs. (fs ''id'', fs ''cas''))
     (stored_fields
        (outside (snd (insert_dao couchbase
           [''id'' \<mapsto> Str ''x'', ''cas'' \<mapsto> Cas 9, ''language'' \<mapsto> Str ''en''] (Some ''k'') start)))
        ''k'')
     = Some (Some (Str ''x''), Some (Cas 9))
   \<and> map_option (\<lambda>fs. (fs ''id'', fs ''cas''))
     (stored_fields
        (outside (snd (update_dao couchbase
           [''id'' \<mapsto> Str ''k'', ''cas'' \<mapsto> Cas 1, ''language'' \<mapsto> Str ''fr''] one_setting)))
        ''k'')
     = Some (None, None)"
  by (simp add: insert_dao_def update_dao_def spec_db_defs example_defs Let_def stored_fields_def)

text \<open>The invariant on versions that C1 assumes holds of every bucket the operations reach.\<close>

lemma list_all_update:
  "list_all P al \<Longrightarrow> P (k, v) \<Longrightarrow> list_all P (AList.update k v al)"
  by (induction al) auto

lemma versions_issued_later:
  "versions_issued s \<Longrightarrow> list_all (\<lambda>kd. doc_version (snd kd) \<le> Suc (clock s)) (docs s)"
  by (auto simp: versions_issued_def list_all_iff)

lemma versions_issued_kept:
  "versions_issued empty_bucket"
  "versions_issued s \<Longrightarrow> versions_issued (snd (spec_insert k payload durability s))"
  "versions_issued s \<Longrightarrow> versions_issued (snd (spec_replace key payload expected s))"
  "versions_issued s \<Longrightarrow> versions_issued (snd (spec_remove k s))"
proof -
  show "versions_issued empty_bucket"
    by (simp add: versions_issued_def empty_bucket_def)
next
  assume s: "versions_issued s"
  from versions_issued_later [OF s]
  show "versions_issued (snd (spec_insert k payload durability s))"
    using s by (auto simp: spec_insert_def versions_issued_def Let_def split: option.splits)
next
  assume s: "versions_issued s"
  from versions_issued_later [OF s]
  show "versions_issued (snd (spec_replace key payload expected s))"
    using s
    by (auto simp: spec_replace_def versions_issued_def Let_def list_all_update
          split: option.splits jsval.splits)
next
  assume s: "versions_issued s"
  then show "versions_issued (snd (spec_remove k s))"
    by (auto simp: spec_remove_def versions_issued_def list_all_iff AList.delete_eq
          split: option.splits)
qed

end
